theory Spec2Isabelle
  imports Complex_Main "HOL-Library.Sublist"
begin

section \<open>Python strings\<close>

text \<open>
  A Python \<^verbatim>\<open>str\<close> is a sequence of Unicode code points; it is modelled as a list of
  naturals.  Case mapping, word characters and digits are modelled for Basic Latin and
  Latin-1 (U+0000 .. U+00FF), the range of the Portuguese legal texts the agents read; a
  code point above U+00FF is caseless, not a word character and not a digit here (the
  arrows and pictographs of the messages are of that kind in Python as well).
\<close>

type_synonym ustr = "nat list"

definition asc :: "string \<Rightarrow> ustr" where
  "asc s = map of_char s"

text \<open>\<^verbatim>\<open>str.lower()\<close>, one code point.\<close>

definition lower_cp :: "nat \<Rightarrow> nat" where
  "lower_cp c = (if (65 \<le> c \<and> c \<le> 90) \<or> (192 \<le> c \<and> c \<le> 222 \<and> c \<noteq> 215) then c + 32 else c)"

definition py_lower :: "ustr \<Rightarrow> ustr" where
  "py_lower s = map lower_cp s"

text \<open>\<^verbatim>\<open>str.upper()\<close>, one code point: sharp s becomes SS, the micro sign and y with
  diaeresis leave Latin-1.\<close>

definition upper_cp :: "nat \<Rightarrow> ustr" where
  "upper_cp c = (if c = 223 then [83, 83] else if c = 181 then [924] else if c = 255 then [376]
     else if (97 \<le> c \<and> c \<le> 122) \<or> (224 \<le> c \<and> c \<le> 254 \<and> c \<noteq> 247) then [c - 32] else [c])"

definition py_upper :: "ustr \<Rightarrow> ustr" where
  "py_upper s = concat (map upper_cp s)"

text \<open>\<^verbatim>\<open>str.isspace()\<close> of one code point, which is also the class \<^verbatim>\<open>\s\<close> of
  \<^verbatim>\<open>re\<close> on \<^verbatim>\<open>str\<close> patterns.\<close>

definition is_space :: "nat \<Rightarrow> bool" where
  "is_space c = ((9 \<le> c \<and> c \<le> 13) \<or> (28 \<le> c \<and> c \<le> 32) \<or> c = 133 \<or> c = 160 \<or> c = 5760
     \<or> (8192 \<le> c \<and> c \<le> 8202) \<or> c = 8232 \<or> c = 8233 \<or> c = 8239 \<or> c = 8287 \<or> c = 12288)"

text \<open>The class \<^verbatim>\<open>\d\<close>.\<close>

definition is_digit :: "nat \<Rightarrow> bool" where
  "is_digit c = (48 \<le> c \<and> c \<le> 57)"

text \<open>The class \<^verbatim>\<open>\w\<close>: alphanumeric or the underscore.\<close>

definition is_word :: "nat \<Rightarrow> bool" where
  "is_word c = ((48 \<le> c \<and> c \<le> 57) \<or> (65 \<le> c \<and> c \<le> 90) \<or> c = 95 \<or> (97 \<le> c \<and> c \<le> 122)
     \<or> c = 170 \<or> c = 178 \<or> c = 179 \<or> c = 181 \<or> c = 185 \<or> c = 186 \<or> (188 \<le> c \<and> c \<le> 190)
     \<or> (192 \<le> c \<and> c \<le> 214) \<or> (216 \<le> c \<and> c \<le> 246) \<or> (248 \<le> c \<and> c \<le> 255))"

text \<open>\<^verbatim>\<open>sub in s\<close>.\<close>

fun py_in :: "ustr \<Rightarrow> ustr \<Rightarrow> bool" where
  "py_in sub [] = (sub = [])"
| "py_in sub (x # xs) = (prefix sub (x # xs) \<or> py_in sub xs)"

text \<open>\<^verbatim>\<open>s.replace(old, new)\<close>: the occurrences of \<^verbatim>\<open>old\<close> from the left, not
  overlapping; an empty \<^verbatim>\<open>old\<close> matches between all characters.\<close>

function py_replace_ne :: "ustr \<Rightarrow> ustr \<Rightarrow> ustr \<Rightarrow> ustr" where
  "py_replace_ne old new s =
     (if old = [] \<or> s = [] then s
      else if prefix old s then new @ py_replace_ne old new (drop (length old) s)
      else hd s # py_replace_ne old new (tl s))"
  by pat_completeness auto
termination
  by (relation "measure (\<lambda>(old, new, s). length s)") auto

definition py_replace :: "ustr \<Rightarrow> ustr \<Rightarrow> ustr \<Rightarrow> ustr" where
  "py_replace old new s =
     (if old = [] then new @ concat (map (\<lambda>c. c # new) s) else py_replace_ne old new s)"

text \<open>\<^verbatim>\<open>s.strip()\<close>.\<close>

definition py_strip :: "ustr \<Rightarrow> ustr" where
  "py_strip s = rev (dropWhile is_space (rev (dropWhile is_space s)))"

section \<open>Regular expressions\<close>

text \<open>
  The patterns of the agents, as syntax trees.  The matcher is a backtracking one like
  Python's: from a cursor it returns every cursor a match can end at, the preferred one
  first (a greedy repetition tries the longest first, an alternation its left branch first).
  A cursor is the character before it (for \<^verbatim>\<open>\b\<close>) and the text from it on.
\<close>

datatype regex =
    Eps
  | Chr nat
  | Cls "nat list"
  | AnyC
  | SpaceC
  | DigitC
  | WordB
  | Seq regex regex
  | Alt regex regex
  | Opt regex
  | Star regex
  | Look regex
  | NLook regex

type_synonym cursor = "nat option \<times> nat list"

text \<open>One character against a literal, with the flag \<^verbatim>\<open>re.IGNORECASE\<close> or without.\<close>

definition chr_eq :: "bool \<Rightarrow> nat \<Rightarrow> nat \<Rightarrow> bool" where
  "chr_eq ic c x = (if ic then lower_cp x = lower_cp c else x = c)"

definition at_boundary :: "cursor \<Rightarrow> bool" where
  "at_boundary cu =
     ((case fst cu of None \<Rightarrow> False | Some p \<Rightarrow> is_word p)
        \<noteq> (case snd cu of [] \<Rightarrow> False | x # xs \<Rightarrow> is_word x))"

fun step_char :: "(nat \<Rightarrow> bool) \<Rightarrow> cursor \<Rightarrow> cursor list" where
  "step_char P (p, []) = []"
| "step_char P (p, x # xs) = (if P x then [(Some x, xs)] else [])"

function rmatch :: "bool \<Rightarrow> regex \<Rightarrow> cursor \<Rightarrow> cursor list" where
  "rmatch ic Eps cu = [cu]"
| "rmatch ic (Chr c) cu = step_char (chr_eq ic c) cu"
| "rmatch ic (Cls cs) cu = step_char (\<lambda>x. \<exists>c \<in> set cs. chr_eq ic c x) cu"
| "rmatch ic AnyC cu = step_char (\<lambda>x. x \<noteq> 10) cu"
| "rmatch ic SpaceC cu = step_char is_space cu"
| "rmatch ic DigitC cu = step_char is_digit cu"
| "rmatch ic WordB cu = (if at_boundary cu then [cu] else [])"
| "rmatch ic (Seq a b) cu = concat (map (rmatch ic b) (rmatch ic a cu))"
| "rmatch ic (Alt a b) cu = rmatch ic a cu @ rmatch ic b cu"
| "rmatch ic (Opt a) cu = rmatch ic a cu @ [cu]"
| "rmatch ic (Star a) cu =
     concat (map (rmatch ic (Star a))
       (filter (\<lambda>cu'. length (snd cu') < length (snd cu)) (rmatch ic a cu))) @ [cu]"
| "rmatch ic (Look a) cu = (if rmatch ic a cu = [] then [] else [cu])"
| "rmatch ic (NLook a) cu = (if rmatch ic a cu = [] then [cu] else [])"
  by pat_completeness auto
termination
  by (relation "measures [\<lambda>(ic, r, cu). size r, \<lambda>(ic, r, cu). length (snd cu)]") auto


text \<open>\<^verbatim>\<open>re.search(p, text) is not None\<close>: some position of the text starts a match.\<close>

fun search_from :: "bool \<Rightarrow> regex \<Rightarrow> nat option \<Rightarrow> ustr \<Rightarrow> bool" where
  "search_from ic r p [] = (rmatch ic r (p, []) \<noteq> [])"
| "search_from ic r p (x # xs) = (rmatch ic r (p, x # xs) \<noteq> [] \<or> search_from ic r (Some x) xs)"

definition re_search :: "bool \<Rightarrow> regex \<Rightarrow> ustr \<Rightarrow> bool" where
  "re_search ic r s = search_from ic r None s"

text \<open>The loop \<^verbatim>\<open>for pattern in patterns: if re.search(pattern, text): ...\<close>: whether one
  of the patterns is found.\<close>

fun any_match :: "bool \<Rightarrow> regex list \<Rightarrow> ustr \<Rightarrow> bool" where
  "any_match ic [] s = False"
| "any_match ic (p # ps) s = (re_search ic p s \<or> any_match ic ps s)"

text \<open>\<^verbatim>\<open>re.search(p, text).group(0)\<close>: the text of the leftmost match, its preferred end.\<close>

fun find_from :: "bool \<Rightarrow> regex \<Rightarrow> nat option \<Rightarrow> ustr \<Rightarrow> ustr option" where
  "find_from ic r p [] = (case rmatch ic r (p, []) of [] \<Rightarrow> None | cu # cus \<Rightarrow> Some [])"
| "find_from ic r p (x # xs) =
     (case rmatch ic r (p, x # xs) of
        [] \<Rightarrow> find_from ic r (Some x) xs
      | cu # cus \<Rightarrow> Some (take (length (x # xs) - length (snd cu)) (x # xs)))"

definition re_find :: "bool \<Rightarrow> regex \<Rightarrow> ustr \<Rightarrow> ustr option" where
  "re_find ic r s = find_from ic r None s"

text \<open>
  \<^verbatim>\<open>re.finditer(p, text)\<close>: the spans \<^verbatim>\<open>(start, end)\<close> of the matches from the left,
  not overlapping.  After an empty match the next one may start at the same position but
  must not be empty there (\<^verbatim>\<open>must\<close>).
\<close>

definition prev_after :: "nat option \<Rightarrow> ustr \<Rightarrow> nat \<Rightarrow> nat option" where
  "prev_after p rest n = (if n = 0 then p else Some (rest ! (n - 1)))"

function finditer_from :: "bool \<Rightarrow> regex \<Rightarrow> bool \<Rightarrow> nat \<Rightarrow> nat option \<Rightarrow> ustr \<Rightarrow> (nat \<times> nat) list" where
  "finditer_from ic r must pos p rest =
     (case filter (\<lambda>cu. \<not> must \<or> length (snd cu) < length rest) (rmatch ic r (p, rest)) of
        cu # cus \<Rightarrow>
          (let n = length rest - length (snd cu) in
           (pos, pos + n) # finditer_from ic r (n = 0) (pos + n) (prev_after p rest n) (drop n rest))
      | [] \<Rightarrow>
          (case rest of
             [] \<Rightarrow> []
           | x # xs \<Rightarrow> finditer_from ic r False (pos + 1) (Some x) xs))"
  by pat_completeness auto
termination
  apply (relation "measures [\<lambda>(ic, r, must, pos, p, rest). length rest,
                           \<lambda>(ic, r, must, pos, p, rest). if must then 0 else 1]")
    apply simp
   apply clarsimp
  subgoal premises prems for ic r must pos p rest cu cus n
  proof -
    have "cu \<in> set (filter (\<lambda>cu. \<not> must \<or> length (snd cu) < length rest) (rmatch ic r (p, rest)))"
      using prems by simp
    then have "must \<longrightarrow> length (snd cu) < length rest"
      by auto
    then show ?thesis
      using prems by (cases must) auto
  qed
  done

definition re_finditer :: "bool \<Rightarrow> regex \<Rightarrow> ustr \<Rightarrow> (nat \<times> nat) list" where
  "re_finditer ic r s = finditer_from ic r False 0 None s"

text \<open>The slice \<^verbatim>\<open>s[a:b]\<close> for \<^verbatim>\<open>0 <= a\<close> and \<^verbatim>\<open>0 <= b\<close>.\<close>

definition py_slice :: "nat \<Rightarrow> nat \<Rightarrow> ustr \<Rightarrow> ustr" where
  "py_slice a b s = take (b - a) (drop a s)"

subsection \<open>Building patterns\<close>

fun lits :: "ustr \<Rightarrow> regex" where
  "lits [] = Eps"
| "lits (c # cs) = Seq (Chr c) (lits cs)"

fun seqs :: "regex list \<Rightarrow> regex" where
  "seqs [] = Eps"
| "seqs (r # rs) = Seq r (seqs rs)"

fun alts :: "regex list \<Rightarrow> regex" where
  "alts [] = NLook Eps"
| "alts [r] = r"
| "alts (r # rs) = Alt r (alts rs)"

definition lit :: "string \<Rightarrow> regex" where
  "lit s = lits (asc s)"

definition plus :: "regex \<Rightarrow> regex" where
  "plus r = Seq r (Star r)"

text \<open>\<^verbatim>\<open>\s+\<close>, and the letters with their unaccented alternatives.\<close>

definition sp :: regex where "sp = plus SpaceC"
definition c_cedil :: regex where "c_cedil = Cls [231, 99]"
definition a_tilde :: regex where "a_tilde = Cls [227, 97]"
definition i_acute :: regex where "i_acute = Cls [237, 105]"
definition e_acute :: regex where "e_acute = Cls [233, 101]"
definition o_tilde :: regex where "o_tilde = Cls [245, 111]"
definition a_acute :: regex where "a_acute = Cls [225, 97]"


section \<open>The validation agent (\<^verbatim>\<open>validation_agent.py\<close>)\<close>

subsection \<open>The pattern tables of \<^verbatim>\<open>ValidationAgent.__init__\<close>\<close>

definition t_SUSPENSAO :: ustr where "t_SUSPENSAO = asc ''SUSPENS'' @ [195] @ asc ''O''"
definition t_ISENCAO :: ustr where "t_ISENCAO = asc ''ISEN'' @ [199, 195] @ asc ''O''"
definition t_ALIQUOTA0 :: ustr where "t_ALIQUOTA0 = asc ''AL'' @ [205] @ asc ''QUOTA 0%''"
definition t_REDUCAO :: ustr where "t_REDUCAO = asc ''REDU'' @ [199, 195] @ asc ''O''"
definition t_CREDITO :: ustr where "t_CREDITO = asc ''CR'' @ [201] @ asc ''DITO''"

text \<open>\<^verbatim>\<open>SUSPENSAO -> ALIQUOTA 0%\<close>, with the arrow U+2192 between the two names.\<close>

definition t_SUSP_ALIQ0 :: ustr where
  "t_SUSP_ALIQ0 = t_SUSPENSAO @ asc '' '' @ [8594] @ asc '' '' @ t_ALIQUOTA0"

text \<open>\<^verbatim>\<open>self.change_type_patterns\<close>: a dict, iterated in the order it is written.\<close>

definition change_type_patterns :: "(ustr \<times> regex list) list" where
  "change_type_patterns =
    [(t_SUSPENSAO,
       [seqs [lit ''suspens'', a_tilde, lit ''o''],
        seqs [lit ''suspend'', Cls (asc ''ea'')],
        seqs [lit ''fica'', sp, lit ''suspenso''],
        seqs [lit ''pagamento'', sp, lit ''suspenso''],
        seqs [lit ''com'', sp, lit ''suspens'', a_tilde, lit ''o'']]),
     (t_ISENCAO,
       [seqs [lit ''isen'', c_cedil, a_tilde, lit ''o''],
        seqs [lit ''isento'', Opt (Cls (asc ''s''))],
        seqs [lit ''fica'', Opt (Cls (asc ''m'')), sp, lit ''isento''],
        seqs [lit ''com'', sp, lit ''isen'', c_cedil, a_tilde, lit ''o'']]),
     (t_ALIQUOTA0,
       [seqs [lit ''al'', i_acute, lit ''quota'', sp, Opt (seqs [lit ''de'', sp]), alts [lit ''0%'', lit ''zero'']],
        seqs [lit ''0%'', Star SpaceC, Opt (Chr 40), lit ''zero''],
        seqs [lit ''zero'', Star SpaceC, Opt (Chr 40), lit ''0%''],
        seqs [lit ''reduzid'', Opt (Chr 97), sp, lit ''a'', sp, lit ''zero''],
        seqs [lit ''convertid'', Opt (Chr 97), sp, lit ''em'', sp,
              Opt (seqs [lit ''al'', i_acute, lit ''quota'', sp]), lit ''zero'']]),
     (t_REDUCAO,
       [seqs [lit ''redu'', c_cedil, a_tilde, lit ''o''],
        seqs [lit ''reduzid'', Cls (asc ''ao'')],
        seqs [lit ''reduz'', Opt (lit ''ir'')],
        seqs [lit ''al'', i_acute, lit ''quota'', sp, lit ''reduzida'']]),
     (t_CREDITO,
       [seqs [lit ''cr'', e_acute, lit ''dito''],
        seqs [lit ''direito'', sp, lit ''a'', sp, lit ''cr'', e_acute, lit ''dito''],
        lit ''creditamento''])]"

text \<open>\<^verbatim>\<open>self.tributo_patterns\<close>.\<close>

definition word :: "string \<Rightarrow> regex" where
  "word s = seqs [WordB, lit s, WordB]"

definition tributo_patterns :: "(ustr \<times> regex list) list" where
  "tributo_patterns =
    [(asc ''PIS'',
       [word ''pis'',
        seqs [lit ''contribui'', c_cedil, a_tilde, lit ''o'', sp, lit ''para'', sp, lit ''o'', sp, lit ''pis'']]),
     (asc ''COFINS'',
       [word ''cofins'',
        seqs [lit ''contribui'', c_cedil, a_tilde, lit ''o'', Star AnyC, lit ''financiamento'', Star AnyC,
              lit ''seguridade'']]),
     (asc ''IPI'',
       [word ''ipi'',
        seqs [lit ''imposto'', sp, lit ''sobre'', sp, lit ''produtos'', sp, lit ''industrializados'']]),
     (asc ''ICMS'',
       [word ''icms'',
        seqs [lit ''imposto'', sp, lit ''sobre'', sp,
              alts [seqs [lit ''circula'', c_cedil, a_tilde, lit ''o''],
                    seqs [lit ''opera'', c_cedil, o_tilde, lit ''es'']]]]),
     (asc ''ISS'',
       [word ''iss'',
        seqs [lit ''imposto'', sp, lit ''sobre'', sp, lit ''servi'', c_cedil, lit ''os'']]),
     (asc ''II'',
       [seqs [lit ''imposto'', sp, lit ''de'', sp, lit ''importa'', c_cedil, a_tilde, lit ''o''],
        seqs [WordB, lit ''ii'', WordB,
              NLook (seqs [Star SpaceC, Opt (Cls (asc ''-,.'')), Star SpaceC,
                           alts [lit ''do'', lit ''da'', lit ''de'', lit ''iii'', lit ''iv'', lit ''v''],
                           WordB])]]),
     (asc ''IBS'',
       [word ''ibs'',
        seqs [lit ''imposto'', sp, lit ''sobre'', sp, lit ''bens'', sp, lit ''e'', sp, lit ''servi'', c_cedil,
              lit ''os'']]),
     (asc ''CBS'',
       [word ''cbs'',
        seqs [lit ''contribui'', c_cedil, a_tilde, lit ''o'', sp, lit ''sobre'', sp, lit ''bens'', sp, lit ''e'',
              sp, lit ''servi'', c_cedil, lit ''os'']]),
     (asc ''IS'',
       [seqs [lit ''imposto'', sp, lit ''seletivo''],
        seqs [WordB, lit ''is'', WordB,
              Look (seqs [sp, alts [lit ''incid'', seqs [lit ''ser'', a_acute], lit ''sobre'']])]])]"

text \<open>The pattern \<^verbatim>\<open>rf'\b{re.escape(t)}\b'\<close> of a tax name without an entry: the escaped
  name matches itself, letter by letter.\<close>

definition default_pattern :: "ustr \<Rightarrow> regex" where
  "default_pattern t = seqs [WordB, lits t, WordB]"

definition CONTRIB_PARA_O :: ustr where
  "CONTRIB_PARA_O = asc ''CONTRIBUI'' @ [199, 195] @ asc ''O PARA O ''"
definition CONTRIB_PARA_A :: ustr where
  "CONTRIB_PARA_A = asc ''CONTRIBUI'' @ [199, 195] @ asc ''O PARA A ''"
definition contrib_para_o :: ustr where
  "contrib_para_o = asc ''contribui'' @ [231, 227] @ asc ''o para o ''"
definition contrib_para_a :: ustr where
  "contrib_para_a = asc ''contribui'' @ [231, 227] @ asc ''o para a ''"

subsection \<open>The records the agent reads and patches\<close>

text \<open>A dict is a record of optional fields: \<^verbatim>\<open>None\<close> is the absent key.\<close>

record aliquota =
  tributo :: "ustr option"
  situacao_anterior :: "ustr option"
  situacao_nova :: "ustr option"
  tipo_mudanca :: "ustr option"
  condicoes :: "ustr option"
  vigencia :: "ustr option"
  descricao_completa :: "ustr option"
  compliance_risks :: "ustr option"

record vigencia_rec =
  data :: "ustr option"
  contexto :: "ustr option"
  tipo :: "ustr option"
  relevancia :: "ustr option"

record web_result =
  url :: "ustr option"
  title :: "ustr option"
  content :: "ustr option"

record validation_status =
  validated :: bool
  corrections_made :: nat
  errors :: "ustr list"
  confidence :: ustr

text \<open>\<^verbatim>\<open>state["system_changes"]\<close>, when it is a dict with a key, and
  \<^verbatim>\<open>state["date_extraction"]\<close>.\<close>

record system_changes_rec =
  aliquotas :: "aliquota list option"
  sc_known_law_key :: "ustr option"

record date_extraction_rec =
  dates_text :: "ustr option"
  vigencias :: "vigencia_rec list option"
  de_count :: "nat option"
  de_known_law_key :: "ustr option"

text \<open>
  The part of the workflow state the agent touches.  \<^verbatim>\<open>raw_text\<close> is
  \<^verbatim>\<open>state["raw_extraction"]["raw_text"]\<close> and \<^verbatim>\<open>structured_raw_text\<close> is
  \<^verbatim>\<open>state["structured_data"]["raw_extraction"]["raw_text"]\<close>; \<^verbatim>\<open>system_changes\<close> is
  \<^verbatim>\<open>None\<close> for a missing key and for the empty dict, which the agent treats alike;
  \<^verbatim>\<open>date_extraction\<close> is \<^verbatim>\<open>None\<close> for a missing key only.
\<close>

record vstate =
  raw_text :: "ustr option"
  structured_raw_text :: "ustr option"
  web_results :: "web_result list"
  system_changes :: "system_changes_rec option"
  date_extraction :: "date_extraction_rec option"
  validation_status :: "validation_status option"

text \<open>\<^verbatim>\<open>d.get(key, "")\<close> and \<^verbatim>\<open>d.get(key, [])\<close>.\<close>

definition get_str :: "ustr option \<Rightarrow> ustr" where
  "get_str v = (case v of None \<Rightarrow> [] | Some s \<Rightarrow> s)"

definition get_list :: "'a list option \<Rightarrow> 'a list" where
  "get_list v = (case v of None \<Rightarrow> [] | Some xs \<Rightarrow> xs)"


subsection \<open>\<^verbatim>\<open>_get_original_text\<close>\<close>

text \<open>\<^verbatim>\<open>max(sources, key=len)\<close>: the first of the longest.\<close>

definition py_max_len :: "ustr \<Rightarrow> ustr list \<Rightarrow> ustr" where
  "py_max_len s0 ss = foldl (\<lambda>best s. if length best < length s then s else best) s0 ss"

definition get_original_text :: "vstate \<Rightarrow> ustr" where
  "get_original_text state =
     py_max_len (get_str (raw_text state))
       (get_str (structured_raw_text state)
          # map (\<lambda>wr. get_str (content wr)) (filter (\<lambda>wr. get_str (content wr) \<noteq> []) (web_results state)))"

subsection \<open>\<^verbatim>\<open>_validate_tributo\<close>\<close>

definition validate_tributo :: "ustr \<Rightarrow> ustr \<Rightarrow> bool" where
  "validate_tributo trib original_lower =
     (let tributo_key = py_strip (py_replace CONTRIB_PARA_A [] (py_replace CONTRIB_PARA_O [] (py_upper trib)));
          patterns = (case map_of tributo_patterns tributo_key of
                        Some ps \<Rightarrow> ps
                      | None \<Rightarrow> [default_pattern (py_lower trib)])
      in any_match True patterns original_lower)"

subsection \<open>\<^verbatim>\<open>_find_tributo_contexts\<close> and \<^verbatim>\<open>_validate_change_type\<close>\<close>

text \<open>The window \<^verbatim>\<open>text[max(0, start - window) : min(len(text), end + window)]\<close> around a
  match.\<close>

definition window_of :: "ustr \<Rightarrow> nat \<Rightarrow> nat \<times> nat \<Rightarrow> ustr" where
  "window_of text window se =
     py_slice (fst se - window) (min (length text) (snd se + window)) text"

fun contexts_of :: "regex list \<Rightarrow> ustr \<Rightarrow> nat \<Rightarrow> ustr list" where
  "contexts_of [] text window = []"
| "contexts_of (p # ps) text window =
     map (window_of text window) (re_finditer True p text) @ contexts_of ps text window"

definition find_tributo_contexts :: "ustr \<Rightarrow> ustr \<Rightarrow> nat \<Rightarrow> ustr list" where
  "find_tributo_contexts trib text window =
     (let patterns = (case map_of tributo_patterns (py_upper trib) of
                        Some ps \<Rightarrow> ps
                      | None \<Rightarrow> [default_pattern trib])
      in contexts_of patterns text window)"

text \<open>The first change type, in table order, one of whose patterns matches the context.\<close>

fun first_type_key :: "(ustr \<times> regex list) list \<Rightarrow> ustr \<Rightarrow> ustr option" where
  "first_type_key [] context = None"
| "first_type_key ((k, ps) # table) context =
     (if any_match True ps context then Some k else first_type_key table context)"

definition type_in_context :: "ustr \<Rightarrow> ustr option" where
  "type_in_context context = first_type_key change_type_patterns context"

fun first_type :: "ustr list \<Rightarrow> ustr option" where
  "first_type [] = None"
| "first_type (c # cs) = (case type_in_context c of Some k \<Rightarrow> Some k | None \<Rightarrow> first_type cs)"

text \<open>The first key of the table that occurs in the upper-cased type.\<close>

fun first_key_in :: "(ustr \<times> regex list) list \<Rightarrow> ustr \<Rightarrow> ustr option" where
  "first_key_in [] tipo_upper = None"
| "first_key_in ((k, ps) # table) tipo_upper =
     (if py_in k tipo_upper then Some k else first_key_in table tipo_upper)"

text \<open>\<^verbatim>\<open>tipo_to_check\<close> and \<^verbatim>\<open>secondary_check\<close>.\<close>

definition tipo_to_check :: "ustr \<Rightarrow> ustr option \<times> ustr option" where
  "tipo_to_check tipo_upper =
     (if py_in t_SUSPENSAO tipo_upper \<and> (py_in (asc ''0%'') tipo_upper \<or> py_in (asc ''ZERO'') tipo_upper)
      then (Some t_SUSPENSAO, Some t_ALIQUOTA0)
      else (first_key_in change_type_patterns tipo_upper, None))"

text \<open>The windows the type is looked for in: those around the occurrences of the tax, or
  the whole text when there is none.\<close>

definition tributo_contexts :: "ustr \<Rightarrow> ustr \<Rightarrow> ustr list" where
  "tributo_contexts trib original_lower =
     (let tributo_lower = py_replace contrib_para_a [] (py_replace contrib_para_o [] (py_lower trib));
          found_contexts = find_tributo_contexts tributo_lower original_lower 300
      in if found_contexts = [] then [original_lower] else found_contexts)"

definition validate_change_type :: "ustr \<Rightarrow> ustr \<Rightarrow> ustr \<Rightarrow> bool \<times> ustr option" where
  "validate_change_type trib tipo_m original_lower =
     (case tipo_to_check (py_upper tipo_m) of
        (None, secondary) \<Rightarrow> (False, None)
      | (Some chk, secondary) \<Rightarrow>
          (case first_type (tributo_contexts trib original_lower) of
             None \<Rightarrow> (False, None)
           | Some found \<Rightarrow>
               if chk = found then (True, Some found)
               else if secondary = Some found
                 then (True, Some (chk @ asc '' '' @ [8594] @ asc '' '' @ get_str secondary))
               else (False, Some found)))"

subsection \<open>\<^verbatim>\<open>_get_situacao_nova\<close>\<close>

definition get_situacao_nova :: "ustr \<Rightarrow> ustr \<Rightarrow> ustr" where
  "get_situacao_nova tipo_correto trib =
     (if tipo_correto = t_SUSPENSAO then
        asc ''Suspens'' @ [227] @ asc ''o do pagamento do '' @ trib
          @ asc '' conforme condi'' @ [231, 245] @ asc ''es da legisla'' @ [231, 227] @ asc ''o.''
      else if tipo_correto = t_SUSP_ALIQ0 then
        asc ''Suspens'' @ [227] @ asc ''o do '' @ trib
          @ asc '' que converte em al'' @ [237] @ asc ''quota zero ap'' @ [243]
          @ asc ''s cumprimento dos requisitos.''
      else if tipo_correto = t_ISENCAO then
        asc ''Isen'' @ [231, 227] @ asc ''o do '' @ trib
          @ asc '' para opera'' @ [231, 245] @ asc ''es espec'' @ [237] @ asc ''ficas conforme condi''
          @ [231, 245] @ asc ''es da legisla'' @ [231, 227] @ asc ''o.''
      else if tipo_correto = t_ALIQUOTA0 then
        asc ''Al'' @ [237] @ asc ''quota zero do '' @ trib
          @ asc '' para opera'' @ [231, 245] @ asc ''es espec'' @ [237] @ asc ''ficas.''
      else if tipo_correto = t_REDUCAO then
        asc ''Redu'' @ [231, 227] @ asc ''o da al'' @ [237] @ asc ''quota do '' @ trib
          @ asc '' conforme legisla'' @ [231, 227] @ asc ''o.''
      else if tipo_correto = t_CREDITO then
        asc ''Direito a cr'' @ [233] @ asc ''dito do '' @ trib
          @ asc '' conforme condi'' @ [231, 245] @ asc ''es estabelecidas.''
      else
        asc ''Altera'' @ [231, 227] @ asc ''o no '' @ trib @ asc '' conforme legisla'' @ [231, 227] @ asc ''o.'')"

subsection \<open>The loop of \<^verbatim>\<open>validate\<close> over the tax-change records\<close>

text \<open>The two messages appended to \<^verbatim>\<open>errors_found\<close>.\<close>

definition err_not_found :: "ustr \<Rightarrow> ustr" where
  "err_not_found trib =
     [9888, 65039] @ asc '' '' @ trib @ asc '': n'' @ [227] @ asc ''o encontrado no texto original''"

definition err_tipo :: "ustr \<Rightarrow> ustr \<Rightarrow> ustr" where
  "err_tipo trib tipo_m =
     [10060] @ asc '' '' @ trib @ asc '': tipo '' @ [39] @ tipo_m @ [39] @ asc '' n'' @ [227]
       @ asc ''o confirmado no texto''"

text \<open>The patch of a record whose type is corrected.\<close>

definition patch_tipo :: "ustr \<Rightarrow> ustr \<Rightarrow> aliquota \<Rightarrow> aliquota" where
  "patch_tipo trib tipo_correto aliq =
     aliq\<lparr>tipo_mudanca := Some tipo_correto,
          descricao_completa := Some (trib @ asc '': '' @ tipo_correto),
          situacao_nova := Some (get_situacao_nova tipo_correto trib)\<rparr>"

text \<open>One turn of the loop: the record as it is left in the list, the corrections and the
  errors it adds.  A record whose tax is not found is left in place (\<^verbatim>\<open>continue\<close>).\<close>

definition validate_one :: "ustr \<Rightarrow> aliquota \<Rightarrow> aliquota \<times> nat \<times> ustr list" where
  "validate_one original_lower aliq =
     (let trib = get_str (tributo aliq);
          tipo_m = get_str (tipo_mudanca aliq)
      in if \<not> validate_tributo trib original_lower then (aliq, 0, [err_not_found trib])
         else case validate_change_type trib tipo_m original_lower of
                (True, tipo_correto) \<Rightarrow> (aliq, 0, [])
              | (False, tipo_correto) \<Rightarrow>
                  if get_str tipo_correto \<noteq> [] then (patch_tipo trib (get_str tipo_correto) aliq, 1, [])
                  else (aliq, 0, [err_tipo trib tipo_m]))"

fun validate_aliquotas :: "ustr \<Rightarrow> aliquota list \<Rightarrow> aliquota list \<times> nat \<times> ustr list" where
  "validate_aliquotas original_lower [] = ([], 0, [])"
| "validate_aliquotas original_lower (aliq # rest) =
     (case validate_one original_lower aliq of
        (aliq', c, e) \<Rightarrow>
          (case validate_aliquotas original_lower rest of
             (rest', c', e') \<Rightarrow> (aliq' # rest', c + c', e @ e')))"

subsection \<open>\<^verbatim>\<open>_validate_via_llm\<close> and the corrections it returns\<close>

text \<open>
  The text-generation service is outside the repository: it is a parameter, the function
  from the lines to validate and the excerpt of the text to the parsed list
  \<^verbatim>\<open>validacoes\<close> of the reply, or \<^verbatim>\<open>None\<close> when the call or the parsing raises.
\<close>

record validacao =
  v_tributo :: "ustr option"
  v_tipo_correto :: "ustr option"
  v_correcao_necessaria :: bool

type_synonym llm = "ustr list \<Rightarrow> ustr \<Rightarrow> validacao list option"

definition correction_of :: "validacao \<Rightarrow> (ustr \<times> ustr) option" where
  "correction_of v = (case v_tributo v of None \<Rightarrow> None | Some t \<Rightarrow> Some (t, get_str (v_tipo_correto v)))"

definition validate_via_llm :: "llm \<Rightarrow> aliquota list \<Rightarrow> ustr \<Rightarrow> (ustr \<times> ustr) list" where
  "validate_via_llm ask aliqs original_text =
     (if aliqs = [] then []
      else
        let tributos_to_validate =
              map (\<lambda>a. asc ''- '' @ get_str (tributo a) @ asc '': '' @ get_str (tipo_mudanca a))
                  (filter (\<lambda>a. get_str (tributo a) \<noteq> [] \<and> get_str (tipo_mudanca a) \<noteq> []) aliqs)
        in if tributos_to_validate = [] then []
           else case ask tributos_to_validate (take 6000 original_text) of
                  None \<Rightarrow> []
                | Some validacoes \<Rightarrow>
                    (case those (map correction_of
                             (filter (\<lambda>v. v_correcao_necessaria v \<and> get_str (v_tipo_correto v) \<noteq> [])
                                     validacoes)) of
                       None \<Rightarrow> []
                     | Some corrections \<Rightarrow> corrections))"

text \<open>One correction of the reply, applied to every record of that tax; each one counts.\<close>

definition apply_correction :: "ustr \<times> ustr \<Rightarrow> aliquota list \<times> nat \<Rightarrow> aliquota list \<times> nat" where
  "apply_correction corr acc =
     (case corr of (trib, tipo_correto) \<Rightarrow>
        (case acc of (aliqs, n) \<Rightarrow>
           (map (\<lambda>a. if tributo a = Some trib then patch_tipo trib tipo_correto a else a) aliqs,
            n + length (filter (\<lambda>a. tributo a = Some trib) aliqs))))"

definition apply_corrections :: "(ustr \<times> ustr) list \<Rightarrow> aliquota list \<times> nat \<Rightarrow> aliquota list \<times> nat" where
  "apply_corrections corrs acc = foldl (\<lambda>acc corr. apply_correction corr acc) acc corrs"


subsection \<open>\<^verbatim>\<open>_validate_vigencias\<close>\<close>

text \<open>
  The agent hands the date string, with every \<^verbatim>\<open>/\<close> replaced by \<^verbatim>\<open>[-/]\<close>, to
  \<^verbatim>\<open>re.search\<close> as a pattern.  The pattern syntax is modelled for the strings dates are
  made of: an ordinary character stands for itself, a dot for any character but the
  newline, \<^verbatim>\<open>[-/]\<close> for one of the two separators.  The result is \<^verbatim>\<open>None\<close> for every
  other use of a special character: there Python raises \<^verbatim>\<open>re.error\<close> or compiles a
  pattern this model leaves out.
\<close>

definition special_chars :: "nat list" where
  "special_chars = [92, 94, 36, 42, 43, 63, 123, 125, 91, 93, 124, 40, 41]"

fun parse_date_pattern :: "ustr \<Rightarrow> regex option" where
  "parse_date_pattern [] = Some Eps"
| "parse_date_pattern (c # cs) =
     (if c = 91 then
        (case cs of
           c1 # c2 # c3 # rest \<Rightarrow>
             if c1 = 45 \<and> c2 = 47 \<and> c3 = 93
             then map_option (Seq (Cls [45, 47])) (parse_date_pattern rest)
             else None
         | _ \<Rightarrow> None)
      else if c = 46 then map_option (Seq AnyC) (parse_date_pattern cs)
      else if c \<in> set special_chars then None
      else map_option (Seq (Chr c)) (parse_date_pattern cs))"

text \<open>What the modelled code raises: \<^verbatim>\<open>re.error\<close> (or a pattern outside the model),
  \<^verbatim>\<open>KeyError\<close> and \<^verbatim>\<open>ValueError\<close>.\<close>

datatype error = PatternError | KeyError | ValueError

text \<open>\<^verbatim>\<open>20\d{2}\<close>.\<close>

definition year_pattern :: regex where
  "year_pattern = seqs [lit ''20'', DigitC, DigitC]"

text \<open>Whether one entry that is not a period in years is kept.\<close>

definition date_in_text :: "regex \<Rightarrow> ustr \<Rightarrow> ustr \<Rightarrow> bool" where
  "date_in_text pat d original_lower =
     (if re_search False pat original_lower \<or> re_search False (default_pattern d) original_lower then True
      else case re_find False year_pattern d of
             None \<Rightarrow> False
           | Some year \<Rightarrow> py_in year original_lower)"

fun validate_vigencias :: "vigencia_rec list \<Rightarrow> ustr \<Rightarrow> error + vigencia_rec list" where
  "validate_vigencias [] original_lower = Inr []"
| "validate_vigencias (vig # vigs) original_lower =
     (let d = get_str (data vig) in
      if py_in (asc ''ano'') (py_lower d) then
        (case validate_vigencias vigs original_lower of
           Inl e \<Rightarrow> Inl e
         | Inr kept \<Rightarrow> Inr (vig # kept))
      else
        (case parse_date_pattern (py_replace [47] (asc ''[-/]'') d) of
           None \<Rightarrow> Inl PatternError
         | Some pat \<Rightarrow>
             (case validate_vigencias vigs original_lower of
                Inl e \<Rightarrow> Inl e
              | Inr kept \<Rightarrow>
                  Inr (if date_in_text pat d original_lower then vig # kept else kept))))"

subsection \<open>\<^verbatim>\<open>ValidationAgent.validate\<close>\<close>

definition set_aliquotas :: "aliquota list \<Rightarrow> vstate \<Rightarrow> vstate" where
  "set_aliquotas aliqs state =
     (case system_changes state of
        None \<Rightarrow> state
      | Some sc \<Rightarrow> state\<lparr>system_changes := Some (sc\<lparr>aliquotas := Some aliqs\<rparr>)\<rparr>)"

definition state_aliquotas :: "vstate \<Rightarrow> aliquota list" where
  "state_aliquotas state =
     (case system_changes state of None \<Rightarrow> [] | Some sc \<Rightarrow> get_list (aliquotas sc))"

text \<open>Step 1: the loop, run only when \<^verbatim>\<open>state["system_changes"]\<close> is there and not empty.\<close>

definition validate_step1 :: "ustr \<Rightarrow> vstate \<Rightarrow> vstate \<times> nat \<times> ustr list" where
  "validate_step1 original_lower state =
     (case system_changes state of
        None \<Rightarrow> (state, 0, [])
      | Some sc \<Rightarrow>
          (case validate_aliquotas original_lower (get_list (aliquotas sc)) of
             (aliqs, c, e) \<Rightarrow> (set_aliquotas aliqs state, c, e)))"

text \<open>Step 2: the one call of the service, when there are one to three errors.\<close>

definition validate_step2 :: "llm \<Rightarrow> ustr \<Rightarrow> vstate \<times> nat \<times> ustr list \<Rightarrow> vstate \<times> nat \<times> ustr list" where
  "validate_step2 ask original_text acc =
     (case acc of (state, c, errors_found) \<Rightarrow>
        if errors_found \<noteq> [] \<and> length errors_found \<le> 3 then
          (case apply_corrections
                  (validate_via_llm ask (state_aliquotas state) (take 8000 original_text))
                  (state_aliquotas state, c) of
             (aliqs, c') \<Rightarrow> (set_aliquotas aliqs state, c', errors_found))
        else (state, c, errors_found))"

text \<open>Step 4: the status.\<close>

definition status_of :: "nat \<Rightarrow> ustr list \<Rightarrow> validation_status" where
  "status_of c errors_found =
     \<lparr>validated = True, corrections_made = c, errors = errors_found,
      confidence = (if errors_found = [] then asc ''alta'' else asc ''media'')\<rparr>"

definition validate :: "llm \<Rightarrow> vstate \<Rightarrow> error + vstate" where
  "validate ask state =
     (let original_text = get_original_text state in
      if original_text = [] then Inr state
      else
        let original_lower = py_lower original_text in
        (case validate_step2 ask original_text (validate_step1 original_lower state) of
           (state2, c, errors_found) \<Rightarrow>
             (case date_extraction state2 of
                None \<Rightarrow> Inr (state2\<lparr>validation_status := Some (status_of c errors_found)\<rparr>)
              | Some de \<Rightarrow>
                  (case validate_vigencias (get_list (vigencias de)) original_lower of
                     Inl e \<Rightarrow> Inl e
                   | Inr kept \<Rightarrow>
                       Inr (state2\<lparr>date_extraction := Some (de\<lparr>vigencias := Some kept\<rparr>),
                                  validation_status := Some (status_of c errors_found)\<rparr>)))))"


section \<open>The knowledge base (\<^verbatim>\<open>reform_knowledge_base.py\<close>)\<close>

text \<open>The two lists of \<^verbatim>\<open>LC_214_DATA\<close> that the merge reads.\<close>

definition LC_214_vigencias :: "vigencia_rec list" where
  "LC_214_vigencias =
     [\<lparr>data = Some (asc ''16/01/2025''),
        contexto = Some (asc ''Publica'' @ [231, 227] @ asc ''o e in'' @ [237] @ asc ''cio da vig'' @ [234] @ asc ''ncia da Lei Complementar n'' @ [186] @ asc '' 214''),
        tipo = Some (asc ''inicio_vigencia''),
        relevancia = Some (asc ''alta'')\<rparr>,
      \<lparr>data = Some (asc ''2026''),
        contexto = Some (asc ''In'' @ [237] @ asc ''cio do per'' @ [237] @ asc ''odo de teste - CBS 0,9% + IBS 0,1%''),
        tipo = Some (asc ''inicio_vigencia''),
        relevancia = Some (asc ''alta'')\<rparr>,
      \<lparr>data = Some (asc ''2027''),
        contexto = Some (asc ''CBS entra em vigor com al'' @ [237] @ asc ''quota cheia (~8,8%); IS (Imposto Seletivo) entra em vigor''),
        tipo = Some (asc ''inicio_vigencia''),
        relevancia = Some (asc ''alta'')\<rparr>,
      \<lparr>data = Some (asc ''2029-2032''),
        contexto = Some (asc ''Per'' @ [237] @ asc ''odo de transi'' @ [231, 227] @ asc ''o gradual - redu'' @ [231, 227] @ asc ''o progressiva de PIS/COFINS/ICMS/ISS''),
        tipo = Some (asc ''prazo_transicao''),
        relevancia = Some (asc ''alta'')\<rparr>,
      \<lparr>data = Some (asc ''31/12/2032''),
        contexto = Some ([218] @ asc ''ltimo ano de coexist'' @ [234] @ asc ''ncia dos sistemas tribut'' @ [225] @ asc ''rios''),
        tipo = Some (asc ''prazo_final''),
        relevancia = Some (asc ''alta'')\<rparr>,
      \<lparr>data = Some (asc ''01/01/2033''),
        contexto = Some (asc ''Extin'' @ [231, 227] @ asc ''o total de PIS, COFINS, ICMS e ISS - IBS e CBS em vigor pleno''),
        tipo = Some (asc ''prazo_final''),
        relevancia = Some (asc ''alta'')\<rparr>]"

definition LC_214_system_changes :: "aliquota list" where
  "LC_214_system_changes =
     [\<lparr>tributo = Some (asc ''IBS''),
        situacao_anterior = Some (asc ''N'' @ [227] @ asc ''o existia (ICMS + ISS eram separados)''),
        situacao_nova = Some (asc ''Novo tributo unificado estadual/municipal com al'' @ [237] @ asc ''quota de refer'' @ [234] @ asc ''ncia de 17,7%. Substitui gradualmente ICMS e ISS at'' @ [233] @ asc '' 2033.''),
        tipo_mudanca = Some (asc ''NOVO TRIBUTO''),
        condicoes = Some (asc ''Aplica-se a todas as opera'' @ [231, 245] @ asc ''es com bens e servi'' @ [231] @ asc ''os. Quem era contribuinte de ICMS ou ISS ser'' @ [225] @ asc '' contribuinte do IBS.''),
        vigencia = Some (asc ''2026 (teste) a 2033 (pleno)''),
        descricao_completa = Some (asc ''IBS: NOVO TRIBUTO (substitui ICMS+ISS)''),
        compliance_risks = Some (asc ''Necessidade de adaptar sistemas para novo tributo; per'' @ [237] @ asc ''odo de conviv'' @ [234] @ asc ''ncia com ICMS/ISS gera complexidade.'')\<rparr>,
      \<lparr>tributo = Some (asc ''CBS''),
        situacao_anterior = Some (asc ''N'' @ [227] @ asc ''o existia (PIS + COFINS eram separados)''),
        situacao_nova = Some (asc ''Nova contribui'' @ [231, 227] @ asc ''o federal com al'' @ [237] @ asc ''quota de refer'' @ [234] @ asc ''ncia de 8,8%. Substitui gradualmente PIS e COFINS at'' @ [233] @ asc '' 2033. Cr'' @ [233] @ asc ''dito amplo (inclusive servi'' @ [231] @ asc ''os).''),
        tipo_mudanca = Some (asc ''NOVO TRIBUTO''),
        condicoes = Some (asc ''Aplica-se a todas as opera'' @ [231, 245] @ asc ''es com bens e servi'' @ [231] @ asc ''os. Regime n'' @ [227] @ asc ''o cumulativo com cr'' @ [233] @ asc ''dito amplo.''),
        vigencia = Some (asc ''2026 (teste 0,9%) a 2027 (al'' @ [237] @ asc ''quota cheia)''),
        descricao_completa = Some (asc ''CBS: NOVO TRIBUTO (substitui PIS+COFINS)''),
        compliance_risks = Some (asc ''Necessidade de adaptar sistemas para novo tributo; mudan'' @ [231] @ asc ''a de regime de cr'' @ [233] @ asc ''dito.'')\<rparr>,
      \<lparr>tributo = Some (asc ''IS''),
        situacao_anterior = Some (asc ''N'' @ [227] @ asc ''o existia''),
        situacao_nova = Some (asc ''Imposto Seletivo incidente sobre produtos prejudiciais '' @ [224] @ asc '' sa'' @ [250] @ asc ''de ou meio ambiente. Al'' @ [237] @ asc ''quotas vari'' @ [225] @ asc ''veis por produto.''),
        tipo_mudanca = Some (asc ''NOVO TRIBUTO''),
        condicoes = Some (asc ''Incide sobre: bebidas alco'' @ [243] @ asc ''licas, cigarros, bebidas a'' @ [231] @ asc ''ucaradas, ve'' @ [237] @ asc ''culos poluentes, extra'' @ [231, 227] @ asc ''o de recursos n'' @ [227] @ asc ''o renov'' @ [225] @ asc ''veis.''),
        vigencia = Some (asc ''A partir de 2027''),
        descricao_completa = Some (asc ''IS: NOVO TRIBUTO (Imposto Seletivo)''),
        compliance_risks = Some (asc ''Verificar se produtos Dell se enquadram (ex: baterias, componentes eletr'' @ [244] @ asc ''nicos com subst'' @ [226] @ asc ''ncias espec'' @ [237] @ asc ''ficas).'')\<rparr>]"

text \<open>An entry of \<^verbatim>\<open>KNOWLEDGE_BASE\<close>, with the two keys the merge reads;
  \<^verbatim>\<open>MPV_1318_DATA\<close> has neither.\<close>

record kb_data =
  kb_vigencias :: "vigencia_rec list option"
  kb_system_changes :: "aliquota list option"

definition LC_214_DATA :: kb_data where
  "LC_214_DATA = \<lparr>kb_vigencias = Some LC_214_vigencias, kb_system_changes = Some LC_214_system_changes\<rparr>"

definition MPV_1318_DATA :: kb_data where
  "MPV_1318_DATA = \<lparr>kb_vigencias = None, kb_system_changes = None\<rparr>"

definition KNOWLEDGE_BASE :: "(ustr \<times> kb_data) list" where
  "KNOWLEDGE_BASE = [(asc ''LC_214'', LC_214_DATA), (asc ''MPV_1318'', MPV_1318_DATA)]"

definition get_vigencias_for_legislation :: "ustr \<Rightarrow> vigencia_rec list" where
  "get_vigencias_for_legislation key =
     (case map_of KNOWLEDGE_BASE key of None \<Rightarrow> [] | Some d \<Rightarrow> get_list (kb_vigencias d))"

definition get_system_changes_for_legislation :: "ustr \<Rightarrow> aliquota list" where
  "get_system_changes_for_legislation key =
     (case map_of KNOWLEDGE_BASE key of None \<Rightarrow> [] | Some d \<Rightarrow> get_list (kb_system_changes d))"

text \<open>The sentinel of the extraction, \<^verbatim>\<open>'Analise detalhada necessaria'\<close> with its accents.\<close>

definition sentinel :: ustr where
  "sentinel = asc ''An'' @ [225] @ asc ''lise detalhada necess'' @ [225] @ asc ''ria''"

text \<open>\<^verbatim>\<open>has_valid_changes\<close>, also written out in the system-changes stage.\<close>

definition has_valid_changes :: "aliquota list \<Rightarrow> bool" where
  "has_valid_changes extracted_changes =
     (case extracted_changes of [] \<Rightarrow> False | first # rest \<Rightarrow> tributo first \<noteq> Some sentinel)"

definition merge_with_extracted_data ::
  "vigencia_rec list \<Rightarrow> aliquota list \<Rightarrow> ustr \<Rightarrow> vigencia_rec list \<times> aliquota list" where
  "merge_with_extracted_data extracted_vigencias extracted_changes known_legislation_key =
     (let kb_v = get_vigencias_for_legislation known_legislation_key;
          kb_c = get_system_changes_for_legislation known_legislation_key;
          vigencias_merged =
            (if extracted_vigencias = [] \<or> length extracted_vigencias < 3 then kb_v else extracted_vigencias);
          changes_merged =
            (if \<not> has_valid_changes extracted_changes then kb_c else extracted_changes)
      in (vigencias_merged, changes_merged))"

text \<open>\<^verbatim>\<open>detect_known_legislation\<close>.\<close>

definition detect_known_legislation :: "ustr \<Rightarrow> ustr \<Rightarrow> ustr \<Rightarrow> ustr option" where
  "detect_known_legislation u cont ttl =
     (let url_lower = py_lower u;
          content_lower = take 5000 (py_lower cont)
      in if py_in (asc ''lcp214'') url_lower
            \<or> py_in (asc ''lcp/lcp214'') url_lower
            \<or> py_in (asc ''/lcp/214'') url_lower
            \<or> py_in (asc ''lei complementar n'' @ [186] @ asc '' 214'') content_lower
            \<or> py_in (asc ''lei complementar n'' @ [176] @ asc '' 214'') content_lower
            \<or> (py_in (asc ''ibs'') content_lower \<and> py_in (asc ''cbs'') content_lower
                 \<and> py_in (asc ''imposto seletivo'') content_lower)
            \<or> (py_in (asc ''reforma tribut'' @ [225] @ asc ''ria'') content_lower \<and> py_in (asc ''ibs'') content_lower)
         then Some (asc ''LC_214'')
         else if py_in (asc ''mpv1318'') url_lower
            \<or> py_in (asc ''mpv/mpv1318'') url_lower
            \<or> py_in (asc ''redata'') content_lower
         then Some (asc ''MPV_1318'')
         else None)"

section \<open>The fallback of the system-changes stage (\<^verbatim>\<open>SystemChangesAgent.identify_changes\<close>)\<close>

text \<open>
  The lines between the extraction of \<^verbatim>\<open>aliquotas\<close> and the assembly of the result.
  \<^verbatim>\<open>has_kb\<close> is the module flag \<^verbatim>\<open>HAS_KNOWLEDGE_BASE\<close>, \<^verbatim>\<open>known_law_key\<close> the key
  passed in or detected (\<^verbatim>\<open>None\<close> and the empty string are both false).
\<close>

definition fallback_aliquotas :: "bool \<Rightarrow> ustr option \<Rightarrow> aliquota list \<Rightarrow> aliquota list" where
  "fallback_aliquotas has_kb known_law_key aliqs =
     (if has_kb \<and> get_str known_law_key \<noteq> [] then
        (if \<not> has_valid_changes aliqs then
           (let kb_changes = get_system_changes_for_legislation (get_str known_law_key)
            in if kb_changes \<noteq> [] then kb_changes else aliqs)
         else aliqs)
      else aliqs)"

section \<open>The date extraction stage (\<^verbatim>\<open>DateExtractionAgent.extract\<close>)\<close>

text \<open>
  The two calls of the text-generation service and the regex fallback are parameters: each
  returns a list of entries for the combined content, whatever it may be.
\<close>

record extractors =
  llm_reforma :: "ustr \<Rightarrow> vigencia_rec list"
  llm_generic :: "ustr \<Rightarrow> vigencia_rec list"
  regex_fallback :: "ustr \<Rightarrow> vigencia_rec list"

text \<open>\<^verbatim>\<open>"\n\n".join(parts)\<close>.\<close>

fun join_nl2 :: "ustr list \<Rightarrow> ustr" where
  "join_nl2 [] = []"
| "join_nl2 [p] = p"
| "join_nl2 (p # ps) = p @ [10, 10] @ join_nl2 ps"

definition consolidate_content :: "web_result list \<Rightarrow> ustr" where
  "consolidate_content wrs =
     join_nl2 (map (\<lambda>r. take 5000 (get_str (content r)))
                   (filter (\<lambda>r. get_str (content r) \<noteq> []) (take 2 wrs)))"

text \<open>The comprehension that removes duplicates: \<^verbatim>\<open>v['data']\<close> raises on an entry
  without the key.\<close>

fun dedup_data :: "ustr list \<Rightarrow> vigencia_rec list \<Rightarrow> error + vigencia_rec list" where
  "dedup_data seen [] = Inr []"
| "dedup_data seen (v # vs) =
     (case data v of
        None \<Rightarrow> Inl KeyError
      | Some d \<Rightarrow>
          if d \<in> set seen then dedup_data seen vs
          else (case dedup_data (d # seen) vs of Inl e \<Rightarrow> Inl e | Inr kept \<Rightarrow> Inr (v # kept)))"

text \<open>The lines \<^verbatim>\<open>f"{v['data']}: {v['contexto']}"\<close>, joined by newlines.\<close>

fun dates_lines :: "vigencia_rec list \<Rightarrow> error + ustr list" where
  "dates_lines [] = Inr []"
| "dates_lines (v # vs) =
     (case (data v, contexto v) of
        (Some d, Some c) \<Rightarrow>
          (case dates_lines vs of Inl e \<Rightarrow> Inl e | Inr ls \<Rightarrow> Inr ((d @ asc '': '' @ c) # ls))
      | _ \<Rightarrow> Inl KeyError)"

fun join_nl :: "ustr list \<Rightarrow> ustr" where
  "join_nl [] = []"
| "join_nl [p] = p"
| "join_nl (p # ps) = p @ [10] @ join_nl ps"

definition date_extract ::
  "extractors \<Rightarrow> bool \<Rightarrow> web_result list \<Rightarrow> ustr option \<Rightarrow> error + date_extraction_rec" where
  "date_extract ex has_kb wrs raw =
     (let cont = consolidate_content wrs;
          known_law_key =
            (case wrs of
               [] \<Rightarrow> None
             | first # rest \<Rightarrow>
                 if has_kb then detect_known_legislation (get_str (url first)) cont (get_str (title first))
                 else None);
          combined_content = take 8000 cont @ [10, 10] @ take 4000 (get_str raw);
          v0 = (if known_law_key = Some (asc ''LC_214'') then llm_reforma ex combined_content
                else llm_generic ex combined_content);
          v1 = (if has_kb \<and> get_str known_law_key \<noteq> [] then
                  (if v0 = [] \<or> length v0 < 3 then
                     (let kb_v = get_vigencias_for_legislation (get_str known_law_key)
                      in if kb_v \<noteq> [] then kb_v else v0)
                   else v0)
                else v0)
      in case (if v1 = [] \<or> length v1 < 2 then dedup_data [] (v1 @ regex_fallback ex combined_content)
               else Inr v1) of
           Inl e \<Rightarrow> Inl e
         | Inr v2 \<Rightarrow>
             (case dates_lines v2 of
                Inl e \<Rightarrow> Inl e
              | Inr ls \<Rightarrow>
                  Inr \<lparr>dates_text = Some (join_nl ls),
                       vigencias = Some (take 8 v2),
                       de_count = Some (length (take 8 v2)),
                       de_known_law_key = known_law_key\<rparr>))"


section \<open>The workflow (\<^verbatim>\<open>workflow.py\<close>)\<close>

















section \<open>Inputs and notions used in the statements\<close>

text \<open>An entry of the date list with the given date, and the list of nine years.\<close>

definition vig_of :: "string \<Rightarrow> vigencia_rec" where
  "vig_of d = \<lparr>data = Some (asc d), contexto = Some (asc ''prazo''), tipo = Some (asc ''prazo_final''),
     relevancia = Some (asc ''alta'')\<rparr>"

definition nine_years :: "vigencia_rec list" where
  "nine_years = map vig_of [''2025'', ''2026'', ''2027'', ''2028'', ''2029'', ''2030'', ''2031'', ''2032'', ''2033'']"

definition ex_nine :: extractors where
  "ex_nine = \<lparr>llm_reforma = (\<lambda>c. []), llm_generic = (\<lambda>c. nine_years), regex_fallback = (\<lambda>c. [])\<rparr>"

text \<open>Entries on which the subscripts \<^verbatim>\<open>v['data']\<close> and \<^verbatim>\<open>v['contexto']\<close> do not raise.\<close>

definition well_formed :: "vigencia_rec list \<Rightarrow> bool" where
  "well_formed vs = list_all (\<lambda>v. data v \<noteq> None \<and> contexto v \<noteq> None) vs"

text \<open>A tax-change record with the given tax and type, and the record the extraction
  leaves when it fails.\<close>

definition aliq_of :: "ustr \<Rightarrow> ustr \<Rightarrow> aliquota" where
  "aliq_of trib tipo_m = \<lparr>tributo = Some trib, situacao_anterior = None, situacao_nova = None,
     tipo_mudanca = Some tipo_m, condicoes = None, vigencia = None, descricao_completa = None,
     compliance_risks = None\<rparr>"

definition sentinel_rec :: aliquota where
  "sentinel_rec = \<lparr>tributo = Some sentinel, situacao_anterior = None, situacao_nova = None,
     tipo_mudanca = None, condicoes = None, vigencia = None, descricao_completa = None,
     compliance_risks = None\<rparr>"



section \<open>The merge with the knowledge base\<close>

text \<open>
  C3.  The dates component of \<^verbatim>\<open>merge_with_extracted_data\<close> is the knowledge-base list of
  the key when the extracted list has fewer than three entries (the empty list included),
  and the extracted list itself when it has three or more; so a list of two entries is
  replaced by the knowledge-base list and a list of three entries is returned as it is.
\<close>

theorem merge_dates_threshold:
  "fst (merge_with_extracted_data ev ec key) =
     (if length ev < 3 then get_vigencias_for_legislation key else ev)
   \<and> (length ev = 2 \<longrightarrow> fst (merge_with_extracted_data ev ec key) = get_vigencias_for_legislation key)
   \<and> (length ev = 3 \<longrightarrow> fst (merge_with_extracted_data ev ec key) = ev)"
  by (auto simp: merge_with_extracted_data_def Let_def)

theorem merge_dates_threshold_witness:
  "fst (merge_with_extracted_data [vig_of ''01/01/2027'', vig_of ''2028''] [] (asc ''LC_214''))
     = LC_214_vigencias
   \<and> fst (merge_with_extracted_data [vig_of ''01/01/2027'', vig_of ''2028'', vig_of ''2029''] []
            (asc ''LC_214''))
     = [vig_of ''01/01/2027'', vig_of ''2028'', vig_of ''2029'']"
  using merge_dates_threshold [of "[vig_of ''01/01/2027'', vig_of ''2028'']" "[]" "asc ''LC_214''"]
        merge_dates_threshold [of "[vig_of ''01/01/2027'', vig_of ''2028'', vig_of ''2029'']" "[]"
          "asc ''LC_214''"]
  by (simp add: get_vigencias_for_legislation_def KNOWLEDGE_BASE_def LC_214_DATA_def get_list_def asc_def)

text \<open>
  C4, as stated, fails in the system-changes stage: with the key \<^verbatim>\<open>MPV_1318\<close>, whose
  knowledge-base entry has no list of changes, a list that starts with the sentinel is
  kept and not replaced by the (empty) knowledge-base list.
\<close>

theorem fallback_keeps_sentinel_list:
  "fallback_aliquotas True (Some (asc ''MPV_1318'')) [sentinel_rec] = [sentinel_rec]
   \<and> tributo (hd [sentinel_rec]) = Some sentinel
   \<and> get_system_changes_for_legislation (asc ''MPV_1318'') = []"
  by (simp add: fallback_aliquotas_def has_valid_changes_def sentinel_rec_def
        get_system_changes_for_legislation_def KNOWLEDGE_BASE_def MPV_1318_DATA_def get_list_def
        get_str_def asc_def Let_def)

text \<open>
  C4, amended.  \<^verbatim>\<open>merge_with_extracted_data\<close> keeps the extracted list of changes exactly
  when it is not empty and the tax of its first record is not the sentinel, and returns the
  knowledge-base list of the key otherwise.  The system-changes stage replaces the
  extracted list by the knowledge-base list only when the knowledge base is available, a
  key is known, the extracted list is empty or starts with the sentinel, and the
  knowledge-base list is not empty; in every other case it keeps the extracted list.
\<close>

theorem merge_changes_rule:
  "snd (merge_with_extracted_data ev ec key) =
     (if ec \<noteq> [] \<and> tributo (hd ec) \<noteq> Some sentinel then ec
      else get_system_changes_for_legislation key)
   \<and> fallback_aliquotas has_kb k ec =
     (if has_kb \<and> get_str k \<noteq> [] \<and> \<not> (ec \<noteq> [] \<and> tributo (hd ec) \<noteq> Some sentinel)
         \<and> get_system_changes_for_legislation (get_str k) \<noteq> []
      then get_system_changes_for_legislation (get_str k) else ec)"
  by (cases ec)
     (auto simp: merge_with_extracted_data_def fallback_aliquotas_def Let_def has_valid_changes_def)

theorem merge_changes_rule_witness:
  "snd (merge_with_extracted_data [] [sentinel_rec] (asc ''LC_214'')) = LC_214_system_changes
   \<and> fallback_aliquotas True (Some (asc ''LC_214'')) [sentinel_rec] = LC_214_system_changes"
  using merge_changes_rule [of "[]" "[sentinel_rec]" "asc ''LC_214''" True "Some (asc ''LC_214'')"]
  by (simp add: get_system_changes_for_legislation_def KNOWLEDGE_BASE_def LC_214_DATA_def get_list_def
        get_str_def asc_def sentinel_rec_def LC_214_system_changes_def)

section \<open>The date extraction stage\<close>

text \<open>
  C10.  Whenever \<^verbatim>\<open>extract\<close> returns, the list under \<^verbatim>\<open>vigencias\<close> has at most eight
  entries and \<^verbatim>\<open>count\<close> is its length, whatever the service, the knowledge base and the
  regex fallback supplied.
\<close>

theorem date_extract_cap:
  assumes "date_extract ex has_kb wrs raw = Inr out"
  shows "\<exists>vs. vigencias out = Some vs \<and> length vs \<le> 8 \<and> de_count out = Some (length vs)"
  using assms
  by (auto simp: date_extract_def Let_def split: sum.splits if_splits)

lemma nine_years_run:
  "date_extract ex_nine True [] None =
     Inr \<lparr>dates_text = Some (join_nl (map (\<lambda>v. get_str (data v) @ asc '': prazo'') nine_years)),
          vigencias = Some (take 8 nine_years), de_count = Some 8, de_known_law_key = None\<rparr>"
  by (simp add: date_extract_def ex_nine_def consolidate_content_def get_str_def Let_def nine_years_def
        vig_of_def asc_def)

theorem date_extract_cap_witness:
  "\<exists>vs. vigencias \<lparr>dates_text = Some (join_nl (map (\<lambda>v. get_str (data v) @ asc '': prazo'') nine_years)),
          vigencias = Some (take 8 nine_years), de_count = Some 8, de_known_law_key = None\<rparr> = Some vs
        \<and> length vs \<le> 8
        \<and> de_count \<lparr>dates_text = Some (join_nl (map (\<lambda>v. get_str (data v) @ asc '': prazo'') nine_years)),
          vigencias = Some (take 8 nine_years), de_count = Some 8, de_known_law_key = None\<rparr>
            = Some (length vs)"
  using date_extract_cap [OF nine_years_run] .

text \<open>The stage returns whenever the entries it is given have a date and a context, as
  those of the knowledge base have.\<close>

lemma dedup_data_returns:
  "well_formed vs \<Longrightarrow> \<exists>kept. dedup_data seen vs = Inr kept \<and> well_formed kept"
proof (induction vs arbitrary: seen)
  case Nil
  then show ?case by (simp add: well_formed_def)
next
  case (Cons v vs)
  then obtain d where d: "data v = Some d" and wf: "well_formed vs" and c: "contexto v \<noteq> None"
    by (auto simp: well_formed_def)
  from Cons.IH [OF wf, of seen] obtain k1 where k1: "dedup_data seen vs = Inr k1" "well_formed k1"
    by blast
  from Cons.IH [OF wf, of "d # seen"] obtain k2 where k2: "dedup_data (d # seen) vs = Inr k2" "well_formed k2"
    by blast
  show ?case
    using d c k1 k2 by (auto simp: well_formed_def)
qed

lemma dates_lines_returns:
  "well_formed vs \<Longrightarrow> \<exists>ls. dates_lines vs = Inr ls"
  by (induction vs) (auto simp: well_formed_def)

lemma LC_214_vigencias_well_formed:
  "well_formed LC_214_vigencias"
  by (simp add: LC_214_vigencias_def well_formed_def)

lemma kb_vigencias_well_formed:
  "well_formed (get_vigencias_for_legislation key)"
proof -
  have "get_vigencias_for_legislation key = [] \<or> get_vigencias_for_legislation key = LC_214_vigencias"
    by (simp add: get_vigencias_for_legislation_def KNOWLEDGE_BASE_def LC_214_DATA_def MPV_1318_DATA_def
          get_list_def)
  then show ?thesis
    using LC_214_vigencias_well_formed by (auto simp: well_formed_def)
qed

lemma date_extract_returns:
  assumes "\<And>c. well_formed (llm_reforma ex c)" "\<And>c. well_formed (llm_generic ex c)"
    "\<And>c. well_formed (regex_fallback ex c)"
  shows "\<exists>out. date_extract ex has_kb wrs raw = Inr out"
proof -
  define cont where "cont = consolidate_content wrs"
  define k where "k = (case wrs of [] \<Rightarrow> None | first # rest \<Rightarrow>
                 if has_kb then detect_known_legislation (get_str (url first)) cont (get_str (title first))
                 else None)"
  define cc where "cc = take 8000 cont @ [10, 10] @ take 4000 (get_str raw)"
  define v0 where "v0 = (if k = Some (asc ''LC_214'') then llm_reforma ex cc else llm_generic ex cc)"
  define v1 where "v1 = (if has_kb \<and> get_str k \<noteq> [] then
                  (if v0 = [] \<or> length v0 < 3 then
                     (let kb_v = get_vigencias_for_legislation (get_str k)
                      in if kb_v \<noteq> [] then kb_v else v0)
                   else v0)
                else v0)"
  define v2r where "v2r = (if v1 = [] \<or> length v1 < 2 then dedup_data [] (v1 @ regex_fallback ex cc)
                          else Inr v1)"
  have w0: "well_formed v0"
    unfolding v0_def using assms by simp
  have wn: "well_formed []"
    by (simp add: well_formed_def)
  have w1: "well_formed v1"
    unfolding v1_def using w0 wn kb_vigencias_well_formed by (simp add: Let_def)
  have "well_formed (v1 @ regex_fallback ex cc)"
    using w1 assms(3) [of cc] by (auto simp: well_formed_def)
  then obtain kept where kept: "dedup_data [] (v1 @ regex_fallback ex cc) = Inr kept" "well_formed kept"
    using dedup_data_returns by blast
  have "\<exists>v2. v2r = Inr v2 \<and> well_formed v2"
    unfolding v2r_def using kept w1 by (cases "v1 = [] \<or> length v1 < 2") simp_all
  then obtain v2 where v2: "v2r = Inr v2" "well_formed v2"
    by blast
  obtain ls where ls: "dates_lines v2 = Inr ls"
    using dates_lines_returns v2(2) by blast
  have "date_extract ex has_kb wrs raw =
          (case v2r of
             Inl e \<Rightarrow> Inl e
           | Inr v2 \<Rightarrow>
               (case dates_lines v2 of
                  Inl e \<Rightarrow> Inl e
                | Inr ls \<Rightarrow>
                    Inr \<lparr>dates_text = Some (join_nl ls), vigencias = Some (take 8 v2),
                         de_count = Some (length (take 8 v2)), de_known_law_key = k\<rparr>))"
    unfolding date_extract_def v2r_def v1_def v0_def cc_def k_def cont_def Let_def ..
  then show ?thesis
    using v2(1) ls by simp
qed

section \<open>The workflow\<close>











end
